theory Spec2Isabelle
  imports Main "HOL-Library.Word"
begin

section \<open>Values of the Go program\<close>

text \<open>
  The worker of worker.go: it fetches a job from Redis with an atomic script, runs the
  registered handler, files a failed job under retry or dead, and removes the job from
  its in-progress list. \<open>int64\<close> is a 64-bit word (Go arithmetic wraps); \<open>sint\<close>
  reads it as the signed number Go sees. \<open>[]byte\<close> and \<open>string\<close> are both
  \<open>string\<close> here.
\<close>

type_synonym int64 = "64 word"
type_synonym bytes = string

text \<open>A Go \<open>error\<close> value: \<open>redis.ErrNil\<close>, or any other error with its message.\<close>

datatype error = ErrNil | Errorf string

fun error_message :: "error \<Rightarrow> string" where
  "error_message ErrNil = ''redigo: nil returned''"
| "error_message (Errorf msg) = msg"

text \<open>
  Modelled from the spec: the struct \<open>Job\<close>, declared outside worker.go. The fields are
  the ones worker.go reads (\<open>Name\<close>, \<open>Fails\<close>, \<open>rawJSON\<close>) and the ones the data
  model lists: the argument payload, the last error, and the queues the job was fetched
  from.
\<close>

record Job =
  Name :: string
  Args :: bytes
  Fails :: int64
  LastErr :: string
  rawJSON :: bytes
  dequeuedFrom :: bytes
  inProgQueue :: bytes

text \<open>
  Modelled from the spec: the method \<open>job.failed(err)\<close>, declared outside worker.go:
  "any handler error is ... recorded on the Job (failure count += 1, error fields set)".
\<close>

definition failed :: "Job \<Rightarrow> error \<Rightarrow> Job" where
  "failed job err = job\<lparr>Fails := Fails job + 1, LastErr := error_message err\<rparr>"

text \<open>
  Modelled from the spec: the struct \<open>jobType\<close>, declared outside worker.go. worker.go
  reads \<open>Name\<close>, \<open>Priority\<close>, \<open>MaxFails\<close> and \<open>SkipDead\<close>. \<open>MaxFails\<close> holds the
  value \<open>int64(jt.MaxFails)\<close> computes, the only way worker.go reads the field.
\<close>

record jobType =
  jtName :: string
  Priority :: nat
  MaxFails :: int64
  SkipDead :: bool

section \<open>The Redis server\<close>

text \<open>
  The server is outside the repository; this is the fragment of its documented behaviour
  the worker's commands reach. Lists have their head on the left. A sorted set maps each
  member to its score; a score is a double, kept here as the number it denotes.
  Arguments keep their Go type: an integer or a byte string.
\<close>

datatype reply = RNil | RInt int64 | RBulk bytes | RArray "reply list"

datatype arg = AInt int64 | ABytes bytes

record redis =
  lists :: "bytes \<Rightarrow> bytes list"
  zsets :: "bytes \<Rightarrow> bytes \<rightharpoonup> int"

fun lrem_first :: "nat \<Rightarrow> bytes \<Rightarrow> bytes list \<Rightarrow> bytes list" where
  "lrem_first 0 x ys = ys"
| "lrem_first (Suc n) x [] = []"
| "lrem_first (Suc n) x (y # ys) =
     (if x = y then lrem_first n x ys else y # lrem_first (Suc n) x ys)"

text \<open>
  \<open>LREM key count element\<close>: a positive count removes that many occurrences from the
  head, a negative one from the tail, zero removes all.
\<close>

definition lrem :: "int \<Rightarrow> bytes \<Rightarrow> bytes list \<Rightarrow> bytes list" where
  "lrem count x ys =
     (if 0 < count then lrem_first (nat count) x ys
      else if count < 0 then rev (lrem_first (nat (- count)) x (rev ys))
      else removeAll x ys)"

text \<open>
  \<open>LREM\<close> takes exactly three arguments: the key, the count, the element. With any other
  argument list the server answers with an error and changes nothing.
\<close>

fun redis_LREM :: "redis \<Rightarrow> arg list \<Rightarrow> (error + reply) \<times> redis" where
  "redis_LREM s [ABytes key, AInt count, ABytes element] =
     (let old = lists s key; new = lrem (sint count) element old
      in (Inr (RInt (of_nat (length old - length new))),
          s\<lparr>lists := (lists s)(key := new)\<rparr>))"
| "redis_LREM s args = (Inl (Errorf ''ERR wrong arguments for lrem command''), s)"

text \<open>
  The server reads a score as a double: an integer of up to 53 bits is kept as it is, a
  longer one is rounded to 53 significant bits, a tie going to the even neighbour.
\<close>

fun bit_length :: "nat \<Rightarrow> nat" where
  "bit_length n = (if n = 0 then 0 else Suc (bit_length (n div 2)))"

definition nearest_double :: "int \<Rightarrow> int" where
  "nearest_double n =
     (let m = nat \<bar>n\<bar>
      in if m \<le> 2 ^ 53 then n
         else let e = bit_length m - 53;
                  q = m div 2 ^ e;
                  r = m mod 2 ^ e;
                  h = 2 ^ (e - 1);
                  q' = (if h < r \<or> (r = h \<and> odd q) then q + 1 else q)
              in sgn n * int (q' * 2 ^ e))"

text \<open>\<open>ZADD key score member\<close> sets the member's score; it answers 1 for a new member.\<close>

fun redis_ZADD :: "redis \<Rightarrow> arg list \<Rightarrow> (error + reply) \<times> redis" where
  "redis_ZADD s [ABytes key, AInt score, ABytes member] =
     (Inr (RInt (if member \<in> dom (zsets s key) then 0 else 1)),
      s\<lparr>zsets := (zsets s)(key := (zsets s key)(member \<mapsto> nearest_double (sint score)))\<rparr>)"
| "redis_ZADD s args = (Inl (Errorf ''ERR wrong arguments for zadd command''), s)"

text \<open>A command that has reached the server.\<close>

definition server_Do :: "redis \<Rightarrow> string \<Rightarrow> arg list \<Rightarrow> (error + reply) \<times> redis" where
  "server_Do s commandName args =
     (if commandName = ''LREM'' then redis_LREM s args
      else if commandName = ''ZADD'' then redis_ZADD s args
      else (Inl (Errorf ''ERR unknown command''), s))"

text \<open>
  \<open>redis.Values(reply, err)\<close> of the redigo library: an error passes through, an array
  is returned as a slice, a nil reply becomes \<open>ErrNil\<close>, anything else is an error.
\<close>

fun Values :: "error + reply \<Rightarrow> error + reply list" where
  "Values (Inl err) = Inl err"
| "Values (Inr (RArray xs)) = Inr xs"
| "Values (Inr RNil) = Inl ErrNil"
| "Values (Inr (RInt n)) =
     Inl (Errorf ''redigo: unexpected type for Values, got type int64'')"
| "Values (Inr (RBulk b)) =
     Inl (Errorf ''redigo: unexpected type for Values, got type []uint8'')"

text \<open>The type assertion \<open>v.([]byte)\<close>.\<close>

fun as_bytes :: "reply \<Rightarrow> bytes option" where
  "as_bytes (RBulk b) = Some b"
| "as_bytes r = None"

text \<open>
  Modelled from the spec: the Lua script \<open>redisLuaRpoplpushMultiCmd\<close>, a constant
  declared outside worker.go: "iterate the pairs in order; for the first pair whose source
  queue is non-empty, remove one item from the tail of the source queue and push it to the
  head of its paired reservation queue, then return the item's raw bytes together with the
  names of the source and reservation queue it came from; if every source queue is empty,
  return no work".
\<close>

fun rpoplpush_multi :: "redis \<Rightarrow> bytes list \<Rightarrow> reply \<times> redis" where
  "rpoplpush_multi s (src # dst # keys) =
     (if lists s src = [] then rpoplpush_multi s keys
      else let item = last (lists s src);
               s1 = s\<lparr>lists := (lists s)(src := butlast (lists s src))\<rparr>;
               s2 = s1\<lparr>lists := (lists s1)(dst := item # lists s1 dst)\<rparr>
           in (RArray [RBulk item, RBulk src, RBulk dst], s2))"
| "rpoplpush_multi s keys = (RNil, s)"

definition redisLuaRpoplpushMultiCmd :: "redis \<Rightarrow> bytes list \<Rightarrow> (error + reply) \<times> redis" where
  "redisLuaRpoplpushMultiCmd s keys = (Inr (fst (rpoplpush_multi s keys)), snd (rpoplpush_multi s keys))"

section \<open>The worker\<close>

record sample =
  priority :: nat
  redisJobs :: bytes
  redisJobsInProg :: bytes

text \<open>
  The struct \<open>worker\<close>. \<open>pool\<close> is the server the pool's connections reach;
  \<open>redisFetchScript\<close> is what \<open>w.redisFetchScript.Do(conn, keys...)\<close> answers and does
  to the server (an \<open>Inl\<close> result is a transport or protocol failure); \<open>sampler\<close> is
  \<open>w.sampler.samples\<close>. The channels are in \<open>loop_state\<close> below. \<open>logged\<close> is not a
  field of the Go struct: it collects what \<open>logError\<close> has reported.
\<close>

record worker =
  namespace :: string
  pool :: redis
  jobTypes :: "string \<rightharpoonup> jobType"
  redisFetchScript :: "redis \<Rightarrow> bytes list \<Rightarrow> (error + reply) \<times> redis"
  sampler :: "sample list"
  logged :: "(string \<times> error) list"

text \<open>
  The functions worker.go calls and does not define are parameters: \<open>runJob\<close> (the
  handler's outcome, \<open>None\<close> for success), \<open>job.Serialize()\<close>, \<open>newJob\<close> (parsing a
  fetched envelope) and the key names.
\<close>

record deps =
  runJob :: "Job \<Rightarrow> jobType \<Rightarrow> error option"
  Serialize :: "Job \<Rightarrow> error + bytes"
  newJob :: "bytes \<Rightarrow> bytes \<Rightarrow> bytes \<Rightarrow> error + Job"
  redisKeyRetry :: "string \<Rightarrow> bytes"
  redisKeyDead :: "string \<Rightarrow> bytes"

text \<open>
  What one iteration meets outside the program: the clock, the number
  \<open>rand.Int63n(30)\<close> returns, the order \<open>w.sampler.sample()\<close> leaves the samples in,
  and the connection. \<open>connErr commandName\<close> is the error \<open>conn.Do\<close> returns when the
  connection got from \<open>w.pool.Get()\<close> does not deliver that command (pool exhausted,
  store unreachable); \<open>None\<close> when the command reaches the server.
\<close>

record env =
  nowEpochSeconds :: int64
  Int63n_30 :: int64
  sample_order :: "sample list \<Rightarrow> sample list"
  connErr :: "string \<Rightarrow> error option"

text \<open>
  \<open>conn.Do(commandName, args...)\<close> on a connection from the pool: a command that is
  not delivered returns the transport error and leaves the server as it is. An error
  that arises after the server has run the command is the case \<open>None\<close>: the worker
  discards the result of its \<open>ZADD\<close> and \<open>LREM\<close> either way. (The fetch script has
  its own field in the worker; its \<open>Inl\<close> result is the failing fetch.)
\<close>

definition conn_Do :: "env \<Rightarrow> redis \<Rightarrow> string \<Rightarrow> arg list \<Rightarrow> (error + reply) \<times> redis" where
  "conn_Do e s commandName args =
     (case connErr e commandName of
        Some err \<Rightarrow> (Inl err, s)
      | None \<Rightarrow> server_Do s commandName args)"

text \<open>\<open>backoff(fails)\<close>, with \<open>r\<close> the value of \<open>rand.Int63n(30)\<close>.\<close>

definition backoff :: "int64 \<Rightarrow> int64 \<Rightarrow> int64" where
  "backoff r fails = (fails * fails * fails * fails) + 15 + (r * (fails + 1))"

definition logError :: "string \<Rightarrow> error \<Rightarrow> worker \<Rightarrow> worker" where
  "logError key err w = w\<lparr>logged := logged w @ [(key, err)]\<rparr>"

text \<open>The loop of \<open>fetchJob\<close> that collects the keys for the script.\<close>

fun scriptArgs :: "sample list \<Rightarrow> bytes list" where
  "scriptArgs [] = []"
| "scriptArgs (s # samples) = redisJobs s # redisJobsInProg s # scriptArgs samples"

definition fetchJob :: "deps \<Rightarrow> env \<Rightarrow> worker \<Rightarrow> (Job option \<times> error option) \<times> worker" where
  "fetchJob d e w =
     (let w1 = w\<lparr>sampler := sample_order e (sampler w)\<rparr>;
          res = redisFetchScript w1 (pool w1) (scriptArgs (sampler w1));
          w2 = w1\<lparr>pool := snd res\<rparr>
      in case Values (fst res) of
           Inl err \<Rightarrow> if err = ErrNil then ((None, None), w2) else ((None, Some err), w2)
         | Inr values \<Rightarrow>
             if length values \<noteq> 3 then ((None, Some (Errorf ''need 3 elements back'')), w2)
             else (case as_bytes (values ! 0) of
               None \<Rightarrow> ((None, Some (Errorf ''response msg not bytes'')), w2)
             | Some raw \<Rightarrow>
                 (case as_bytes (values ! 1) of
                    None \<Rightarrow> ((None, Some (Errorf ''response queue not bytes'')), w2)
                  | Some deq \<Rightarrow>
                      (case as_bytes (values ! 2) of
                         None \<Rightarrow> ((None, Some (Errorf ''response in prog not bytes'')), w2)
                       | Some inprog \<Rightarrow>
                           (case newJob d raw deq inprog of
                              Inl err \<Rightarrow> ((None, Some err), w2)
                            | Inr job \<Rightarrow> ((Some job, None), w2))))))"

definition removeJobFromInProgress :: "env \<Rightarrow> worker \<Rightarrow> Job \<Rightarrow> worker" where
  "removeJobFromInProgress e w job =
     w\<lparr>pool := snd (conn_Do e (pool w) ''LREM'' [AInt 1, ABytes (rawJSON job)])\<rparr>"

definition addToRetry :: "deps \<Rightarrow> env \<Rightarrow> worker \<Rightarrow> Job \<Rightarrow> error \<Rightarrow> worker" where
  "addToRetry d e w job runErr =
     (case Serialize d job of
        Inl err \<Rightarrow> w
      | Inr raw \<Rightarrow>
          w\<lparr>pool := snd (conn_Do e (pool w) ''ZADD''
                 [ABytes (redisKeyRetry d (namespace w)),
                  AInt (nowEpochSeconds e + backoff (Int63n_30 e) (Fails job)),
                  ABytes raw])\<rparr>)"

definition addToDead :: "deps \<Rightarrow> env \<Rightarrow> worker \<Rightarrow> Job \<Rightarrow> error \<Rightarrow> worker" where
  "addToDead d e w job runErr =
     (case Serialize d job of
        Inl err \<Rightarrow> w
      | Inr raw \<Rightarrow>
          w\<lparr>pool := snd (conn_Do e (pool w) ''ZADD''
                 [ABytes (redisKeyDead d (namespace w)),
                  AInt (nowEpochSeconds e + backoff (Int63n_30 e) (Fails job)),
                  ABytes raw])\<rparr>)"

definition addToRetryOrDead :: "deps \<Rightarrow> env \<Rightarrow> worker \<Rightarrow> jobType \<Rightarrow> Job \<Rightarrow> error \<Rightarrow> worker" where
  "addToRetryOrDead d e w jt job runErr =
     (let failsRemaining = MaxFails jt - Fails job
      in if 0 < sint failsRemaining then addToRetry d e w job runErr
         else if \<not> SkipDead jt then addToDead d e w job runErr
         else w)"

text \<open>
  \<open>processJob\<close>: the deferred \<open>removeJobFromInProgress\<close> runs last on every path.
\<close>

definition processJob :: "deps \<Rightarrow> env \<Rightarrow> worker \<Rightarrow> Job \<Rightarrow> worker" where
  "processJob d e w job =
     (case jobTypes w (Name job) of
        Some jt \<Rightarrow>
          (case runJob d job jt of
             Some runErr \<Rightarrow>
               removeJobFromInProgress e
                 (addToRetryOrDead d e w jt (failed job runErr) runErr) (failed job runErr)
           | None \<Rightarrow> removeJobFromInProgress e w job)
      | None \<Rightarrow>
          removeJobFromInProgress e
            (addToDead d e w (failed job (Errorf ''stray job -- no handler''))
               (Errorf ''stray job -- no handler''))
            (failed job (Errorf ''stray job -- no handler'')))"

definition loopIteration :: "deps \<Rightarrow> env \<Rightarrow> worker \<Rightarrow> bool \<times> worker" where
  "loopIteration d e w =
     (case fetchJob d e w of
        ((fetched, fetchErr), w') \<Rightarrow>
          (case fetchErr of
             Some err \<Rightarrow> (True, logError ''fetch'' err w')
           | None \<Rightarrow>
               (case fetched of
                  Some job \<Rightarrow> (True, processJob d e w' job)
                | None \<Rightarrow> (False, w'))))"

section \<open>The loop and its channels\<close>

text \<open>
  Go's channel rules, as far as the worker uses them: closing a closed channel panics; a
  receive from a closed channel proceeds at once; a send on an unbuffered channel proceeds
  when a receiver takes it; \<open>select\<close> takes any one of the cases that can proceed, and its
  \<open>default\<close> only when none can.
\<close>

datatype panic = Panic string

definition close_chan :: "bool \<Rightarrow> panic + bool" where
  "close_chan closed = (if closed then Inl (Panic ''close of closed channel'') else Inr True)"

datatype loop_pc = AtSelect | SendingDoneForcing | Returned | Panicked

text \<open>
  The goroutine running \<open>loop\<close> and the worker's four channels. Nothing is ever sent on
  \<open>stopChan\<close> or \<open>doneStoppingChan\<close>, so each is described by whether it is closed.
  \<open>forceIterChan_senders\<close> counts the callers of \<open>forceIter\<close> blocked in their send;
  \<open>doneForcingIterChan_receivers\<close> those waiting for the acknowledgement.
\<close>

record loop_state =
  wk :: worker
  stopChan_closed :: bool
  doneStoppingChan_closed :: bool
  forceIterChan_senders :: nat
  doneForcingIterChan_receivers :: nat
  pc :: loop_pc

datatype event = EvStop | EvForceIter | EvDefault | EvDoneForcing

text \<open>
  One step of \<open>loop\<close>: one pass through the \<open>select\<close> with the body of the chosen case, or
  the completion of the send on \<open>doneForcingIterChan\<close>.
\<close>

inductive loop_step :: "deps \<Rightarrow> loop_state \<Rightarrow> event \<Rightarrow> loop_state \<Rightarrow> bool" for d where
  case_stop:
    "pc s = AtSelect \<Longrightarrow> stopChan_closed s \<Longrightarrow>
     close_chan (doneStoppingChan_closed s) = Inr c \<Longrightarrow>
     loop_step d s EvStop (s\<lparr>doneStoppingChan_closed := c, pc := Returned\<rparr>)"
| case_stop_panic:
    "pc s = AtSelect \<Longrightarrow> stopChan_closed s \<Longrightarrow>
     close_chan (doneStoppingChan_closed s) = Inl p \<Longrightarrow>
     loop_step d s EvStop (s\<lparr>pc := Panicked\<rparr>)"
| case_forceIter:
    "pc s = AtSelect \<Longrightarrow> 0 < forceIterChan_senders s \<Longrightarrow>
     loop_step d s EvForceIter
       (s\<lparr>wk := snd (loopIteration d e (wk s)),
          forceIterChan_senders := forceIterChan_senders s - 1,
          doneForcingIterChan_receivers := doneForcingIterChan_receivers s + 1,
          pc := SendingDoneForcing\<rparr>)"
| case_default:
    "pc s = AtSelect \<Longrightarrow> \<not> stopChan_closed s \<Longrightarrow> forceIterChan_senders s = 0 \<Longrightarrow>
     loop_step d s EvDefault (s\<lparr>wk := snd (loopIteration d e (wk s))\<rparr>)"
| done_forcing:
    "pc s = SendingDoneForcing \<Longrightarrow> 0 < doneForcingIterChan_receivers s \<Longrightarrow>
     loop_step d s EvDoneForcing
       (s\<lparr>doneForcingIterChan_receivers := doneForcingIterChan_receivers s - 1,
          pc := AtSelect\<rparr>)"

inductive loop_steps :: "deps \<Rightarrow> loop_state \<Rightarrow> loop_state \<Rightarrow> bool" for d where
  refl: "loop_steps d s s"
| step: "loop_steps d s s1 \<Longrightarrow> loop_step d s1 ev s2 \<Longrightarrow> loop_steps d s s2"

text \<open>\<open>start\<close>: the loop begins at its \<open>select\<close>, on the fresh channels of \<open>newWorker\<close>.\<close>

definition start :: "worker \<Rightarrow> loop_state" where
  "start w = \<lparr>wk = w, stopChan_closed = False, doneStoppingChan_closed = False,
     forceIterChan_senders = 0, doneForcingIterChan_receivers = 0, pc = AtSelect\<rparr>"

text \<open>The first statement of \<open>stop\<close>: \<open>close(w.stopChan)\<close>.\<close>

definition stop_close :: "loop_state \<Rightarrow> panic + loop_state" where
  "stop_close s =
     (case close_chan (stopChan_closed s) of
        Inl p \<Rightarrow> Inl p
      | Inr c \<Rightarrow> Inr (s\<lparr>stopChan_closed := c\<rparr>))"

text \<open>
  A call of \<open>stop\<close>: it panics in the \<open>close\<close>, or it returns once the loop has run on to a
  state where \<open>doneStoppingChan\<close> is closed, which is when \<open><-w.doneStoppingChan\<close> proceeds.
\<close>

inductive stop :: "deps \<Rightarrow> loop_state \<Rightarrow> panic + loop_state \<Rightarrow> bool" for d where
  stop_panics: "stop_close s = Inl p \<Longrightarrow> stop d s (Inl p)"
| stop_returns:
    "stop_close s = Inr s1 \<Longrightarrow> loop_steps d s1 s2 \<Longrightarrow> doneStoppingChan_closed s2 \<Longrightarrow>
     stop d s (Inr s2)"

text \<open>The first statement of \<open>forceIter\<close>: the caller blocks in its send.\<close>

definition forceIter_send :: "loop_state \<Rightarrow> loop_state" where
  "forceIter_send s = s\<lparr>forceIterChan_senders := forceIterChan_senders s + 1\<rparr>"

section \<open>Example inputs\<close>

text \<open>
  A worker with one registered job type \<open>a\<close> (three failures allowed, dead-lettering on)
  whose source list is empty and whose in-progress list holds one fetched envelope. The
  handler fails unless the payload is \<open>ok\<close>; a job whose payload is \<open>NaN\<close> does not
  serialize.
\<close>

definition ex_deps :: deps where
  "ex_deps = \<lparr>
     runJob = (\<lambda>job jt. if Args job = ''ok'' then None else Some (Errorf ''handler failed'')),
     Serialize = (\<lambda>job. if Args job = ''NaN'' then Inl (Errorf ''json: unsupported value'')
                         else Inr (Name job @ ''|'' @ Args job @ ''|'' @ LastErr job)),
     newJob = (\<lambda>raw deq inprog. if raw = [] then Inl (Errorf ''unexpected end of JSON input'')
                 else Inr \<lparr>Name = raw, Args = [], Fails = 0, LastErr = [], rawJSON = raw,
                           dequeuedFrom = deq, inProgQueue = inprog\<rparr>),
     redisKeyRetry = (\<lambda>ns. ns @ '':retry''),
     redisKeyDead = (\<lambda>ns. ns @ '':dead'')\<rparr>"

definition ex_env :: env where
  "ex_env = \<lparr>nowEpochSeconds = 1000, Int63n_30 = 7, sample_order = rev,
     connErr = (\<lambda>commandName. None)\<rparr>"

text \<open>The same surroundings with the store out of reach for every \<open>conn.Do\<close>.\<close>

definition ex_env_down :: env where
  "ex_env_down = ex_env\<lparr>connErr := (\<lambda>commandName. Some (Errorf ''connection refused''))\<rparr>"

definition ex_redis :: redis where
  "ex_redis = \<lparr>lists = (\<lambda>k. if k = ''w:jobs:a:inprogress'' then [''raw-a''] else []),
               zsets = (\<lambda>k. Map.empty)\<rparr>"

definition ex_jobType :: jobType where
  "ex_jobType = \<lparr>jtName = ''a'', Priority = 1, MaxFails = 3, SkipDead = False\<rparr>"

definition ex_worker :: worker where
  "ex_worker = \<lparr>namespace = ''w'', pool = ex_redis,
     jobTypes = [''a'' \<mapsto> ex_jobType],
     redisFetchScript = redisLuaRpoplpushMultiCmd,
     sampler = [\<lparr>priority = 1, redisJobs = ''w:jobs:a'',
                  redisJobsInProg = ''w:jobs:a:inprogress''\<rparr>],
     logged = []\<rparr>"

definition ex_job :: Job where
  "ex_job = \<lparr>Name = ''a'', Args = ''x'', Fails = 0, LastErr = [], rawJSON = ''raw-a'',
     dequeuedFrom = ''w:jobs:a'', inProgQueue = ''w:jobs:a:inprogress''\<rparr>"

text \<open>A job of the registered type that has already failed twice.\<close>

definition ex_job_last :: Job where
  "ex_job_last = ex_job\<lparr>Fails := 2\<rparr>"

text \<open>A job of the registered type whose envelope does not serialize.\<close>

definition ex_job_nan :: Job where
  "ex_job_nan = ex_job\<lparr>Args := ''NaN''\<rparr>"

text \<open>A job whose name has no registered type.\<close>

definition ex_stray :: Job where
  "ex_stray = ex_job\<lparr>Name := ''zzz''\<rparr>"

text \<open>
  The worker with an envelope named \<open>zzz\<close> waiting in the source list of type \<open>a\<close>, and
  the job \<open>fetchJob\<close> makes of it.
\<close>

definition ex_worker_stray :: worker where
  "ex_worker_stray =
     ex_worker\<lparr>pool := \<lparr>lists = (\<lambda>k. if k = ''w:jobs:a'' then [''zzz''] else []),
                             zsets = (\<lambda>k. Map.empty)\<rparr>\<rparr>"

definition ex_stray_fetched :: Job where
  "ex_stray_fetched = \<lparr>Name = ''zzz'', Args = [], Fails = 0, LastErr = [], rawJSON = ''zzz'',
     dequeuedFrom = ''w:jobs:a'', inProgQueue = ''w:jobs:a:inprogress''\<rparr>"

text \<open>The same worker when the connection fails during the fetch.\<close>

definition ex_worker_down :: worker where
  "ex_worker_down =
     ex_worker\<lparr>redisFetchScript := (\<lambda>s keys. (Inl (Errorf ''connection refused''), s))\<rparr>"

text \<open>The same worker with one envelope waiting in the source list.\<close>

definition ex_worker_busy :: worker where
  "ex_worker_busy =
     ex_worker\<lparr>pool := \<lparr>lists = (\<lambda>k. if k = ''w:jobs:a'' then [''a''] else []),
                             zsets = (\<lambda>k. Map.empty)\<rparr>\<rparr>"

text \<open>The same worker with a job type that suppresses dead-lettering.\<close>

definition ex_worker_skip :: worker where
  "ex_worker_skip = ex_worker\<lparr>jobTypes := [''a'' \<mapsto> ex_jobType\<lparr>SkipDead := True\<rparr>]\<rparr>"

text \<open>The loop at its \<open>select\<close> with \<open>stopChan\<close> closed and one \<open>forceIter\<close> caller waiting.\<close>

definition ex_pending :: loop_state where
  "ex_pending = forceIter_send ((start ex_worker)\<lparr>stopChan_closed := True\<rparr>)"

section \<open>What the commands do to the server\<close>

lemma nearest_double_small:
  assumes "\<bar>n\<bar> \<le> 2 ^ 53"
  shows "nearest_double n = n"
proof -
  have "nat \<bar>n\<bar> \<le> nat (2 ^ 53)" using assms by (rule nat_mono)
  then have "nat \<bar>n\<bar> \<le> 2 ^ 53" by simp
  then show ?thesis by (simp add: nearest_double_def Let_def)
qed

lemma removeJobFromInProgress_pool [simp]:
  "pool (removeJobFromInProgress e w job) = pool w"
  by (simp add: removeJobFromInProgress_def conn_Do_def server_Do_def split: option.splits)

lemma addToRetry_pool:
  "pool (addToRetry d e w job runErr) =
     (case Serialize d job of
        Inl err \<Rightarrow> pool w
      | Inr raw \<Rightarrow>
          (case connErr e ''ZADD'' of
             Some err \<Rightarrow> pool w
           | None \<Rightarrow> (pool w)\<lparr>zsets := (zsets (pool w))(redisKeyRetry d (namespace w) :=
               (zsets (pool w) (redisKeyRetry d (namespace w)))
                 (raw \<mapsto> nearest_double
                    (sint (nowEpochSeconds e + backoff (Int63n_30 e) (Fails job)))))\<rparr>))"
  by (simp add: addToRetry_def conn_Do_def server_Do_def split: sum.splits option.splits)

lemma addToDead_pool:
  "pool (addToDead d e w job runErr) =
     (case Serialize d job of
        Inl err \<Rightarrow> pool w
      | Inr raw \<Rightarrow>
          (case connErr e ''ZADD'' of
             Some err \<Rightarrow> pool w
           | None \<Rightarrow> (pool w)\<lparr>zsets := (zsets (pool w))(redisKeyDead d (namespace w) :=
               (zsets (pool w) (redisKeyDead d (namespace w)))
                 (raw \<mapsto> nearest_double
                    (sint (nowEpochSeconds e + backoff (Int63n_30 e) (Fails job)))))\<rparr>))"
  by (simp add: addToDead_def conn_Do_def server_Do_def split: sum.splits option.splits)

lemma addToRetry_lists: "lists (pool (addToRetry d e w job runErr)) = lists (pool w)"
  by (simp add: addToRetry_pool split: sum.splits option.splits)

lemma addToDead_lists: "lists (pool (addToDead d e w job runErr)) = lists (pool w)"
  by (simp add: addToDead_pool split: sum.splits option.splits)

lemma addToRetryOrDead_lists:
  "lists (pool (addToRetryOrDead d e w jt job runErr)) = lists (pool w)"
  by (simp add: addToRetryOrDead_def addToRetry_lists addToDead_lists Let_def)

lemma processJob_lists: "lists (pool (processJob d e w job)) = lists (pool w)"
  by (simp add: processJob_def addToRetryOrDead_lists addToDead_lists
      split: option.splits)

lemma processJob_failed_pool:
  assumes "jobTypes w (Name job) = Some jt" and "runJob d job jt = Some runErr"
  shows "pool (processJob d e w job) =
         pool (addToRetryOrDead d e w jt (failed job runErr) runErr)"
  using assms by (simp add: processJob_def)

lemma processJob_stray_pool:
  assumes "jobTypes w (Name job) = None"
  shows "pool (processJob d e w job) =
         pool (addToDead d e w (failed job (Errorf ''stray job -- no handler''))
                 (Errorf ''stray job -- no handler''))"
  using assms by (simp add: processJob_def)

section \<open>Removal from the in-progress list\<close>

text \<open>
  C1. The claim: whatever the outcome, \<open>processJob\<close> removes the job's entry from its
  in-progress list. \<open>removeJobFromInProgress\<close> sends \<open>LREM 1 rawJSON\<close>: the key of the
  in-progress list is missing, the server rejects the command, and no list changes
  (\<open>processJob_lists\<close>). Here: the job of type \<open>a\<close> whose handler fails is still in its
  in-progress list after \<open>processJob\<close>.
\<close>

theorem processJob_leaves_reservation:
  "rawJSON ex_job \<in> set (lists (pool ex_worker) (inProgQueue ex_job)) \<and>
   rawJSON ex_job \<in>
     set (lists (pool (processJob ex_deps ex_env ex_worker ex_job)) (inProgQueue ex_job))"
  by (simp add: processJob_lists ex_worker_def ex_job_def ex_redis_def)

section \<open>The score of a dead job\<close>

text \<open>
  C2. The claim: a dead-letter record is scored with the time of insertion, with no
  backoff added. \<open>addToDead\<close> scores it with \<open>nowEpochSeconds() + backoff(job.Fails)\<close>,
  the expression of \<open>addToRetry\<close>. Here: at time 1000 a job with no registered type,
  failing for the first time with jitter 7, is filed under dead with score
  \<open>1000 + (1 + 15 + 7 * 2) = 1030\<close>.
\<close>

theorem addToDead_score_has_backoff:
  "nowEpochSeconds ex_env = 1000 \<and>
   zsets (pool (processJob ex_deps ex_env ex_worker ex_stray))
     (redisKeyDead ex_deps (namespace ex_worker))
     ''zzz|x|stray job -- no handler'' = Some 1030"
  by (simp add: processJob_def addToDead_pool failed_def backoff_def nearest_double_small
      ex_worker_def ex_stray_def ex_job_def ex_deps_def ex_env_def ex_redis_def)

section \<open>Retry, dead or dropped\<close>

lemma stray_fetch:
  "fst (fetchJob ex_deps ex_env_down ex_worker_stray) = (Some ex_stray_fetched, None)"
  by (simp add: fetchJob_def Let_def ex_worker_stray_def ex_worker_def ex_env_down_def
      ex_env_def ex_deps_def ex_stray_fetched_def redisLuaRpoplpushMultiCmd_def)

lemma stray_fetch_worker:
  "jobTypes (snd (fetchJob ex_deps ex_env_down ex_worker_stray)) = jobTypes ex_worker \<and>
   namespace (snd (fetchJob ex_deps ex_env_down ex_worker_stray)) = ''w'' \<and>
   zsets (pool (snd (fetchJob ex_deps ex_env_down ex_worker_stray))) = (\<lambda>k. Map.empty)"
  by (simp add: fetchJob_def Let_def ex_worker_stray_def ex_worker_def ex_env_down_def
      ex_env_def ex_deps_def redisLuaRpoplpushMultiCmd_def)

lemma busy_fetch_down:
  "fst (fetchJob ex_deps ex_env_down ex_worker_busy) =
     (Some \<lparr>Name = ''a'', Args = [], Fails = 0, LastErr = [], rawJSON = ''a'',
        dequeuedFrom = ''w:jobs:a'', inProgQueue = ''w:jobs:a:inprogress''\<rparr>, None)"
  by (simp add: fetchJob_def Let_def ex_worker_busy_def ex_worker_def ex_env_down_def
      ex_env_def ex_deps_def redisLuaRpoplpushMultiCmd_def)

lemma busy_fetch_worker:
  "jobTypes (snd (fetchJob ex_deps ex_env_down ex_worker_busy)) = jobTypes ex_worker \<and>
   namespace (snd (fetchJob ex_deps ex_env_down ex_worker_busy)) = ''w'' \<and>
   zsets (pool (snd (fetchJob ex_deps ex_env_down ex_worker_busy))) = (\<lambda>k. Map.empty)"
  by (simp add: fetchJob_def Let_def ex_worker_busy_def ex_worker_def ex_env_down_def
      ex_env_def ex_deps_def redisLuaRpoplpushMultiCmd_def)

text \<open>
  C3, the claim as stated: a failed job of a registered type with failures remaining is
  inserted into the retry structure. \<open>addToRetry\<close> discards the error of its \<open>ZADD\<close>,
  and returns before it when \<open>job.Serialize()\<close> fails. Here: the job fetched from the
  list of type \<open>a\<close> fails for the first time, two failures remain, its envelope
  serializes, the store is out of reach, and the retry set stays empty; and a job whose
  envelope does not serialize leaves every sorted set as it was on a store within reach.
\<close>

theorem retry_lost_when_unreachable:
  "fst (fetchJob ex_deps ex_env_down ex_worker_busy) =
     (Some \<lparr>Name = ''a'', Args = [], Fails = 0, LastErr = [], rawJSON = ''a'',
        dequeuedFrom = ''w:jobs:a'', inProgQueue = ''w:jobs:a:inprogress''\<rparr>, None) \<and>
   jobTypes (snd (fetchJob ex_deps ex_env_down ex_worker_busy)) ''a'' = Some ex_jobType \<and>
   runJob ex_deps \<lparr>Name = ''a'', Args = [], Fails = 0, LastErr = [], rawJSON = ''a'',
        dequeuedFrom = ''w:jobs:a'', inProgQueue = ''w:jobs:a:inprogress''\<rparr> ex_jobType =
     Some (Errorf ''handler failed'') \<and>
   0 < sint (MaxFails ex_jobType - (0 + 1)) \<and>
   Serialize ex_deps (failed \<lparr>Name = ''a'', Args = [], Fails = 0, LastErr = [],
        rawJSON = ''a'', dequeuedFrom = ''w:jobs:a'',
        inProgQueue = ''w:jobs:a:inprogress''\<rparr> (Errorf ''handler failed'')) =
     Inr ''a||handler failed'' \<and>
   connErr ex_env_down ''ZADD'' = Some (Errorf ''connection refused'') \<and>
   zsets (pool (processJob ex_deps ex_env_down
       (snd (fetchJob ex_deps ex_env_down ex_worker_busy))
       \<lparr>Name = ''a'', Args = [], Fails = 0, LastErr = [], rawJSON = ''a'',
        dequeuedFrom = ''w:jobs:a'', inProgQueue = ''w:jobs:a:inprogress''\<rparr>))
     (redisKeyRetry ex_deps ''w'') = Map.empty \<and>
   jobTypes ex_worker (Name ex_job_nan) = Some ex_jobType \<and>
   runJob ex_deps ex_job_nan ex_jobType = Some (Errorf ''handler failed'') \<and>
   0 < sint (MaxFails ex_jobType - Fails (failed ex_job_nan (Errorf ''handler failed''))) \<and>
   connErr ex_env ''ZADD'' = None \<and>
   zsets (pool (processJob ex_deps ex_env ex_worker ex_job_nan)) = zsets (pool ex_worker)"
proof -
  have a: "zsets (pool (processJob ex_deps ex_env_down
       (snd (fetchJob ex_deps ex_env_down ex_worker_busy))
       \<lparr>Name = ''a'', Args = [], Fails = 0, LastErr = [], rawJSON = ''a'',
        dequeuedFrom = ''w:jobs:a'', inProgQueue = ''w:jobs:a:inprogress''\<rparr>))
     (redisKeyRetry ex_deps ''w'') = Map.empty"
    using busy_fetch_worker
    by (simp add: processJob_def addToRetryOrDead_def addToRetry_pool failed_def
        ex_worker_def ex_deps_def ex_jobType_def ex_env_down_def)
  have b: "zsets (pool (processJob ex_deps ex_env ex_worker ex_job_nan)) = zsets (pool ex_worker)"
    by (simp add: processJob_def addToRetryOrDead_def addToRetry_pool failed_def
        ex_worker_def ex_job_nan_def ex_job_def ex_deps_def ex_jobType_def ex_redis_def)
  have c: "jobTypes (snd (fetchJob ex_deps ex_env_down ex_worker_busy)) ''a'' = Some ex_jobType"
    using busy_fetch_worker by (simp add: ex_worker_def)
  show ?thesis
    using a b c busy_fetch_down
    by (simp add: failed_def ex_deps_def ex_jobType_def ex_env_down_def ex_env_def
        ex_worker_def ex_job_nan_def ex_job_def)
qed

text \<open>
  C3, amended: for every failed job of a registered job type, with
  \<open>failsRemaining = MaxFails - Fails\<close> computed after the failure count went up by one:
  if \<open>failsRemaining > 0\<close>, the job serializes and the \<open>ZADD\<close> reaches the store, its
  envelope is inserted into the retry set with the score \<open>now + backoff Fails\<close> as the
  store keeps it (a double: the number itself up to \<open>2 ^ 53\<close>, the nearest double
  beyond); if \<open>failsRemaining \<le> 0\<close>, the type does not skip dead-lettering, the job
  serializes and the \<open>ZADD\<close> reaches the store, its envelope is inserted into the dead
  set; with the skip-dead flag, or when the job does not serialize, or when the \<open>ZADD\<close>
  does not reach the store, no sorted set changes.
\<close>

theorem addToRetryOrDead_disposition:
  assumes jt: "jobTypes w (Name job) = Some jt" and run: "runJob d job jt = Some runErr"
  shows "Fails (failed job runErr) = Fails job + 1 \<and>
    (if 0 < sint (MaxFails jt - Fails (failed job runErr)) then
       (case Serialize d (failed job runErr) of
          Inr raw \<Rightarrow>
            (case connErr e ''ZADD'' of
               None \<Rightarrow>
                 zsets (pool (processJob d e w job)) =
                   (zsets (pool w))(redisKeyRetry d (namespace w) :=
                      (zsets (pool w) (redisKeyRetry d (namespace w)))
                        (raw \<mapsto> nearest_double (sint (nowEpochSeconds e +
                           backoff (Int63n_30 e) (Fails (failed job runErr))))))
             | Some err \<Rightarrow> zsets (pool (processJob d e w job)) = zsets (pool w))
        | Inl err \<Rightarrow> zsets (pool (processJob d e w job)) = zsets (pool w))
     else if SkipDead jt then zsets (pool (processJob d e w job)) = zsets (pool w)
     else
       (case Serialize d (failed job runErr) of
          Inr raw \<Rightarrow>
            (case connErr e ''ZADD'' of
               None \<Rightarrow>
                 (\<exists>score. zsets (pool (processJob d e w job)) =
                   (zsets (pool w))(redisKeyDead d (namespace w) :=
                      (zsets (pool w) (redisKeyDead d (namespace w)))(raw \<mapsto> score)))
             | Some err \<Rightarrow> zsets (pool (processJob d e w job)) = zsets (pool w))
        | Inl err \<Rightarrow> zsets (pool (processJob d e w job)) = zsets (pool w)))"
proof -
  have p: "pool (processJob d e w job) =
           pool (addToRetryOrDead d e w jt (failed job runErr) runErr)"
    using jt run by (rule processJob_failed_pool)
  have f: "Fails (failed job runErr) = Fails job + 1" by (simp add: failed_def)
  show ?thesis
  proof (cases "0 < sint (MaxFails jt - Fails (failed job runErr))")
    case True
    then show ?thesis
      unfolding p
      by (simp add: f addToRetryOrDead_def addToRetry_pool split: sum.splits option.splits)
  next
    case False
    then show ?thesis
      unfolding p
      by (auto simp add: f addToRetryOrDead_def addToDead_pool
          split: sum.splits option.splits)
  qed
qed

text \<open>
  The branches at work: the first failure of three goes to retry with score
  \<open>1000 + 30\<close>; the third failure goes to dead; with the skip-dead flag the third
  failure writes nothing; with the store out of reach the first failure writes nothing.
\<close>

theorem addToRetryOrDead_disposition_witness:
  "jobTypes ex_worker (Name ex_job) = Some ex_jobType \<and>
   runJob ex_deps ex_job ex_jobType = Some (Errorf ''handler failed'') \<and>
   0 < sint (MaxFails ex_jobType - Fails (failed ex_job (Errorf ''handler failed''))) \<and>
   Serialize ex_deps (failed ex_job (Errorf ''handler failed'')) = Inr ''a|x|handler failed'' \<and>
   connErr ex_env ''ZADD'' = None \<and>
   zsets (pool (processJob ex_deps ex_env ex_worker ex_job)) =
     (zsets (pool ex_worker))(''w:retry'' := [''a|x|handler failed'' \<mapsto> 1030]) \<and>
   jobTypes ex_worker (Name ex_job_last) = Some ex_jobType \<and>
   runJob ex_deps ex_job_last ex_jobType = Some (Errorf ''handler failed'') \<and>
   \<not> 0 < sint (MaxFails ex_jobType - Fails (failed ex_job_last (Errorf ''handler failed''))) \<and>
   (\<exists>score. zsets (pool (processJob ex_deps ex_env ex_worker ex_job_last)) =
     (zsets (pool ex_worker))(''w:dead'' := [''a|x|handler failed'' \<mapsto> score])) \<and>
   jobTypes ex_worker_skip (Name ex_job_last) = Some (ex_jobType\<lparr>SkipDead := True\<rparr>) \<and>
   zsets (pool (processJob ex_deps ex_env ex_worker_skip ex_job_last)) =
     zsets (pool ex_worker_skip) \<and>
   connErr ex_env_down ''ZADD'' = Some (Errorf ''connection refused'') \<and>
   zsets (pool (processJob ex_deps ex_env_down ex_worker ex_job)) = zsets (pool ex_worker)"
proof -
  have jt: "jobTypes ex_worker (Name ex_job) = Some ex_jobType"
    by (simp add: ex_worker_def ex_job_def)
  have run: "runJob ex_deps ex_job ex_jobType = Some (Errorf ''handler failed'')"
    by (simp add: ex_deps_def ex_job_def)
  have jt2: "jobTypes ex_worker (Name ex_job_last) = Some ex_jobType"
    by (simp add: ex_worker_def ex_job_last_def ex_job_def)
  have run2: "runJob ex_deps ex_job_last jt' = Some (Errorf ''handler failed'')" for jt'
    by (simp add: ex_deps_def ex_job_last_def ex_job_def)
  have jt3: "jobTypes ex_worker_skip (Name ex_job_last) = Some (ex_jobType\<lparr>SkipDead := True\<rparr>)"
    by (simp add: ex_worker_skip_def ex_worker_def ex_job_last_def ex_job_def)
  have up: "connErr ex_env ''ZADD'' = None" by (simp add: ex_env_def)
  have dn: "connErr ex_env_down ''ZADD'' = Some (Errorf ''connection refused'')"
    by (simp add: ex_env_down_def)
  have a: "0 < sint (MaxFails ex_jobType - Fails (failed ex_job (Errorf ''handler failed''))) \<and>
     Serialize ex_deps (failed ex_job (Errorf ''handler failed'')) = Inr ''a|x|handler failed'' \<and>
     zsets (pool (processJob ex_deps ex_env ex_worker ex_job)) =
       (zsets (pool ex_worker))(''w:retry'' := [''a|x|handler failed'' \<mapsto> 1030])"
    using addToRetryOrDead_disposition [OF jt run, of ex_env] up
    by (simp add: failed_def backoff_def nearest_double_small ex_job_def ex_deps_def
        ex_jobType_def ex_env_def ex_worker_def ex_redis_def)
  have b: "\<not> 0 < sint (MaxFails ex_jobType - Fails (failed ex_job_last (Errorf ''handler failed''))) \<and>
     (\<exists>score. zsets (pool (processJob ex_deps ex_env ex_worker ex_job_last)) =
       (zsets (pool ex_worker))(''w:dead'' := [''a|x|handler failed'' \<mapsto> score]))"
    using addToRetryOrDead_disposition [OF jt2 run2, of ex_env] up
    by (simp add: failed_def ex_job_last_def ex_job_def ex_deps_def ex_jobType_def
        ex_worker_def ex_redis_def)
  have c: "zsets (pool (processJob ex_deps ex_env ex_worker_skip ex_job_last)) =
     zsets (pool ex_worker_skip)"
    using addToRetryOrDead_disposition [OF jt3 run2, of ex_env]
    by (simp add: failed_def ex_job_last_def ex_job_def ex_jobType_def)
  have d: "zsets (pool (processJob ex_deps ex_env_down ex_worker ex_job)) = zsets (pool ex_worker)"
    using addToRetryOrDead_disposition [OF jt run, of ex_env_down] dn
    by (simp add: failed_def ex_job_def ex_deps_def ex_jobType_def)
  show ?thesis using jt run jt2 run2 jt3 up dn a b c d by simp
qed

section \<open>A job with no registered type\<close>

text \<open>
  C6, the claim as stated: a job with no registered type is inserted into the dead-letter
  structure unconditionally. \<open>addToDead\<close> discards the error of its \<open>ZADD\<close>. Here: the
  envelope named \<open>zzz\<close> is fetched from the list of type \<open>a\<close>, no type is registered
  under its name, its envelope serializes, the store is out of reach for the \<open>ZADD\<close>, and
  the dead set stays empty.
\<close>

theorem stray_lost_when_unreachable:
  "fst (fetchJob ex_deps ex_env_down ex_worker_stray) = (Some ex_stray_fetched, None) \<and>
   jobTypes (snd (fetchJob ex_deps ex_env_down ex_worker_stray)) (Name ex_stray_fetched) = None \<and>
   Serialize ex_deps (failed ex_stray_fetched (Errorf ''stray job -- no handler'')) =
     Inr ''zzz||stray job -- no handler'' \<and>
   connErr ex_env_down ''ZADD'' = Some (Errorf ''connection refused'') \<and>
   zsets (pool (processJob ex_deps ex_env_down
       (snd (fetchJob ex_deps ex_env_down ex_worker_stray)) ex_stray_fetched))
     (redisKeyDead ex_deps ''w'') = Map.empty"
proof -
  have a: "zsets (pool (processJob ex_deps ex_env_down
       (snd (fetchJob ex_deps ex_env_down ex_worker_stray)) ex_stray_fetched))
     (redisKeyDead ex_deps ''w'') = Map.empty"
    using stray_fetch_worker
    by (simp add: processJob_def addToDead_pool failed_def
        ex_worker_def ex_deps_def ex_stray_fetched_def ex_env_down_def)
  have b: "jobTypes (snd (fetchJob ex_deps ex_env_down ex_worker_stray)) (Name ex_stray_fetched)
      = None"
    using stray_fetch_worker by (simp add: ex_worker_def ex_stray_fetched_def)
  show ?thesis
    using a b stray_fetch
    by (simp add: failed_def ex_deps_def ex_stray_fetched_def ex_env_down_def)
qed

text \<open>
  C6, amended: for every fetched job whose name has no registered job type, the worker
  sets the failure fields (count up by one, error \<open>stray job -- no handler\<close>) and, if the
  job serializes and the \<open>ZADD\<close> reaches the store, inserts the envelope into the dead
  set and changes no other sorted set; if the job does not serialize or the \<open>ZADD\<close> does
  not reach the store, no sorted set changes. No job type, and so no maximum and no
  skip-dead flag, takes part, and nothing is written to the retry set.
\<close>

theorem processJob_stray:
  assumes "jobTypes w (Name job) = None"
  shows "Fails (failed job (Errorf ''stray job -- no handler'')) = Fails job + 1 \<and>
    LastErr (failed job (Errorf ''stray job -- no handler'')) = ''stray job -- no handler'' \<and>
    (case Serialize d (failed job (Errorf ''stray job -- no handler'')) of
       Inr raw \<Rightarrow>
         (case connErr e ''ZADD'' of
            None \<Rightarrow>
              (\<exists>score. zsets (pool (processJob d e w job)) =
                 (zsets (pool w))(redisKeyDead d (namespace w) :=
                    (zsets (pool w) (redisKeyDead d (namespace w)))(raw \<mapsto> score)))
          | Some err \<Rightarrow> zsets (pool (processJob d e w job)) = zsets (pool w))
     | Inl err \<Rightarrow> zsets (pool (processJob d e w job)) = zsets (pool w))"
  unfolding processJob_stray_pool [OF assms]
  by (auto simp add: failed_def addToDead_pool split: sum.splits option.splits)

theorem processJob_stray_witness:
  "jobTypes ex_worker (Name ex_stray) = None \<and>
   Fails (failed ex_stray (Errorf ''stray job -- no handler'')) = 1 \<and>
   Serialize ex_deps (failed ex_stray (Errorf ''stray job -- no handler'')) =
     Inr ''zzz|x|stray job -- no handler'' \<and>
   connErr ex_env ''ZADD'' = None \<and>
   (\<exists>score. zsets (pool (processJob ex_deps ex_env ex_worker ex_stray)) =
      (zsets (pool ex_worker))(''w:dead'' := [''zzz|x|stray job -- no handler'' \<mapsto> score])) \<and>
   connErr ex_env_down ''ZADD'' = Some (Errorf ''connection refused'') \<and>
   zsets (pool (processJob ex_deps ex_env_down ex_worker ex_stray)) = zsets (pool ex_worker)"
proof -
  have jt: "jobTypes ex_worker (Name ex_stray) = None"
    by (simp add: ex_worker_def ex_stray_def ex_job_def)
  have up: "connErr ex_env ''ZADD'' = None" by (simp add: ex_env_def)
  have dn: "connErr ex_env_down ''ZADD'' = Some (Errorf ''connection refused'')"
    by (simp add: ex_env_down_def)
  have a: "Fails (failed ex_stray (Errorf ''stray job -- no handler'')) = 1 \<and>
   Serialize ex_deps (failed ex_stray (Errorf ''stray job -- no handler'')) =
     Inr ''zzz|x|stray job -- no handler'' \<and>
   (\<exists>score. zsets (pool (processJob ex_deps ex_env ex_worker ex_stray)) =
      (zsets (pool ex_worker))(''w:dead'' := [''zzz|x|stray job -- no handler'' \<mapsto> score]))"
    using processJob_stray [OF jt, of ex_deps ex_env] up
    by (simp add: failed_def ex_stray_def ex_job_def ex_deps_def ex_worker_def ex_redis_def)
  have b: "zsets (pool (processJob ex_deps ex_env_down ex_worker ex_stray)) = zsets (pool ex_worker)"
    using processJob_stray [OF jt, of ex_deps ex_env_down] dn
    by (simp add: failed_def ex_stray_def ex_job_def ex_deps_def)
  show ?thesis using jt up dn a b by simp
qed

section \<open>Fetching\<close>

lemma rpoplpush_multi_empty:
  "\<forall>s \<in> set samples. lists st (redisJobs s) = [] \<Longrightarrow>
   rpoplpush_multi st (scriptArgs samples) = (RNil, st)"
  by (induction samples) simp_all

lemma fetchJob_logged: "logged (snd (fetchJob d e w)) = logged w"
  by (simp add: fetchJob_def Let_def split: sum.splits option.splits)

lemma fetchJob_nil:
  assumes "fst (redisFetchScript w (pool w) (scriptArgs (sample_order e (sampler w)))) = Inr RNil"
  shows "fst (fetchJob d e w) = (None, None)"
  using assms by (simp add: fetchJob_def Let_def)

lemma fetchJob_idle:
  assumes "redisFetchScript w = redisLuaRpoplpushMultiCmd"
    and "\<forall>s \<in> set (sample_order e (sampler w)). lists (pool w) (redisJobs s) = []"
  shows "fetchJob d e w = ((None, None), w\<lparr>sampler := sample_order e (sampler w)\<rparr>)"
  using assms
  by (simp add: fetchJob_def Let_def redisLuaRpoplpushMultiCmd_def rpoplpush_multi_empty)

lemma as_bytes_Some: "as_bytes r = Some b \<longleftrightarrow> r = RBulk b"
  by (cases r) auto

lemma fetchJob_error:
  assumes "snd (fst (fetchJob d e w)) = Some err"
  shows "fst (redisFetchScript w (pool w) (scriptArgs (sample_order e (sampler w)))) = Inl err
      \<and> err \<noteq> ErrNil \<or>
    (\<exists>r. fst (redisFetchScript w (pool w) (scriptArgs (sample_order e (sampler w)))) = Inr r
       \<and> r \<noteq> RNil \<and>
       (\<forall>a b c. r = RArray [RBulk a, RBulk b, RBulk c] \<longrightarrow> newJob d a b c = Inl err))"
proof -
  let ?res = "fst (redisFetchScript w (pool w) (scriptArgs (sample_order e (sampler w))))"
  show ?thesis
  proof (cases ?res)
    case (Inl x)
    with assms show ?thesis
      by (simp add: fetchJob_def Let_def split: if_splits)
  next
    case (Inr r)
    show ?thesis
    proof (cases r)
      case RNil
      with Inr assms show ?thesis by (simp add: fetchJob_def Let_def)
    next
      case (RArray vs)
      with Inr assms show ?thesis
        by (auto simp add: fetchJob_def Let_def as_bytes_Some
            split: if_splits option.splits sum.splits)
    qed (use Inr in simp_all)
  qed
qed

lemma ex_idle:
  "\<forall>s \<in> set (sample_order ex_env (sampler ex_worker)). lists (pool ex_worker) (redisJobs s) = []"
  by (simp add: ex_env_def ex_worker_def ex_redis_def)

lemma busy_fetch:
  "fst (fetchJob ex_deps ex_env ex_worker_busy) =
     (Some \<lparr>Name = ''a'', Args = [], Fails = 0, LastErr = [], rawJSON = ''a'',
        dequeuedFrom = ''w:jobs:a'', inProgQueue = ''w:jobs:a:inprogress''\<rparr>, None)"
  by (simp add: fetchJob_def Let_def ex_worker_busy_def ex_worker_def ex_env_def ex_deps_def
      redisLuaRpoplpushMultiCmd_def)

text \<open>
  C7. When every source list is empty, the script answers nil and \<open>fetchJob\<close> returns no
  job and no error; the server's lists and sorted sets are as before (only the order of
  the worker's samples is new). The same answer follows whenever the script answers nil.
  An error is returned only when the script call itself failed with an error other than
  \<open>ErrNil\<close>, or its reply is not nil and is not three byte strings that \<open>newJob\<close>
  accepts.
\<close>

theorem fetchJob_no_work:
  "(redisFetchScript w = redisLuaRpoplpushMultiCmd \<and>
      (\<forall>s \<in> set (sample_order e (sampler w)). lists (pool w) (redisJobs s) = []) \<longrightarrow>
      fetchJob d e w = ((None, None), w\<lparr>sampler := sample_order e (sampler w)\<rparr>)) \<and>
   (fst (redisFetchScript w (pool w) (scriptArgs (sample_order e (sampler w)))) = Inr RNil \<longrightarrow>
      fst (fetchJob d e w) = (None, None)) \<and>
   (\<forall>err. snd (fst (fetchJob d e w)) = Some err \<longrightarrow>
      fst (redisFetchScript w (pool w) (scriptArgs (sample_order e (sampler w)))) = Inl err
        \<and> err \<noteq> ErrNil \<or>
      (\<exists>r. fst (redisFetchScript w (pool w) (scriptArgs (sample_order e (sampler w)))) = Inr r
         \<and> r \<noteq> RNil \<and>
         (\<forall>a b c. r = RArray [RBulk a, RBulk b, RBulk c] \<longrightarrow> newJob d a b c = Inl err)))"
  using fetchJob_idle [of w e d] fetchJob_nil [of w e d] fetchJob_error [of d e w]
  by blast

theorem fetchJob_no_work_witness:
  "redisFetchScript ex_worker = redisLuaRpoplpushMultiCmd \<and>
   lists (pool ex_worker) ''w:jobs:a'' = [] \<and>
   sample_order ex_env (sampler ex_worker) = sampler ex_worker \<and>
   fetchJob ex_deps ex_env ex_worker = ((None, None), ex_worker) \<and>
   snd (fst (fetchJob ex_deps ex_env ex_worker_down)) = Some (Errorf ''connection refused'') \<and>
   fst (redisFetchScript ex_worker_down (pool ex_worker_down)
     (scriptArgs (sample_order ex_env (sampler ex_worker_down)))) = Inl (Errorf ''connection refused'')"
proof -
  have s: "redisFetchScript ex_worker = redisLuaRpoplpushMultiCmd"
    by (simp add: ex_worker_def)
  have o: "sample_order ex_env (sampler ex_worker) = sampler ex_worker"
    by (simp add: ex_env_def ex_worker_def)
  have w: "ex_worker\<lparr>sampler := sampler ex_worker\<rparr> = ex_worker" by simp
  have dn: "snd (fst (fetchJob ex_deps ex_env ex_worker_down)) = Some (Errorf ''connection refused'')"
    by (simp add: fetchJob_def ex_worker_down_def Let_def)
  have q: "lists (pool ex_worker) ''w:jobs:a'' = []"
    by (simp add: ex_worker_def ex_redis_def)
  from fetchJob_no_work [of ex_worker ex_env ex_deps] s ex_idle
  have a: "fetchJob ex_deps ex_env ex_worker = ((None, None), ex_worker)"
    by (simp add: o)
  from fetchJob_no_work [of ex_worker_down ex_env ex_deps] dn
  have b: "fst (redisFetchScript ex_worker_down (pool ex_worker_down)
     (scriptArgs (sample_order ex_env (sampler ex_worker_down)))) = Inl (Errorf ''connection refused'')"
    by (simp add: ex_worker_down_def)
  show ?thesis using s o q a b dn by simp
qed

section \<open>One iteration\<close>

lemma loop_step_iteration_pc:
  assumes "loop_step d s ev s'" and "ev = EvDefault \<or> ev = EvForceIter"
  shows "pc s' = AtSelect \<or> pc s' = SendingDoneForcing"
  using assms by (induction rule: loop_step.induct) auto

text \<open>
  C8. In one iteration: a fetch error is reported under \<open>fetch\<close> and the iteration
  returns true; a fetched job is handed to \<open>processJob\<close> and the iteration returns true;
  with no work it returns false and does nothing more. After an iteration, forced or not,
  the loop has neither returned nor panicked.
\<close>

theorem loopIteration_outcomes:
  "(\<forall>err. snd (fst (fetchJob d e w)) = Some err \<longrightarrow>
      fst (loopIteration d e w) = True \<and>
      logged (snd (loopIteration d e w)) = logged w @ [(''fetch'', err)] \<and>
      pool (snd (loopIteration d e w)) = pool (snd (fetchJob d e w))) \<and>
   (\<forall>job. fst (fetchJob d e w) = (Some job, None) \<longrightarrow>
      loopIteration d e w = (True, processJob d e (snd (fetchJob d e w)) job)) \<and>
   (fst (fetchJob d e w) = (None, None) \<longrightarrow>
      loopIteration d e w = (False, snd (fetchJob d e w))) \<and>
   (\<forall>s ev s'. loop_step d s ev s' \<and> (ev = EvDefault \<or> ev = EvForceIter) \<longrightarrow>
      pc s' \<noteq> Returned \<and> pc s' \<noteq> Panicked)"
proof -
  obtain j er w' where f: "fetchJob d e w = ((j, er), w')"
    by (cases "fetchJob d e w") auto
  have lg: "logged w' = logged w" using fetchJob_logged [of d e w] f by simp
  have a: "\<forall>err. snd (fst (fetchJob d e w)) = Some err \<longrightarrow>
      fst (loopIteration d e w) = True \<and>
      logged (snd (loopIteration d e w)) = logged w @ [(''fetch'', err)] \<and>
      pool (snd (loopIteration d e w)) = pool (snd (fetchJob d e w))"
    using f lg by (simp add: loopIteration_def logError_def)
  have b: "\<forall>job. fst (fetchJob d e w) = (Some job, None) \<longrightarrow>
      loopIteration d e w = (True, processJob d e (snd (fetchJob d e w)) job)"
    using f by (simp add: loopIteration_def)
  have c: "fst (fetchJob d e w) = (None, None) \<longrightarrow>
      loopIteration d e w = (False, snd (fetchJob d e w))"
    using f by (simp add: loopIteration_def)
  have dd: "\<forall>s ev s'. loop_step d s ev s' \<and> (ev = EvDefault \<or> ev = EvForceIter) \<longrightarrow>
      pc s' \<noteq> Returned \<and> pc s' \<noteq> Panicked"
    using loop_step_iteration_pc [of d] by fastforce
  show ?thesis using a b c dd by blast
qed

theorem loopIteration_outcomes_witness:
  "snd (fst (fetchJob ex_deps ex_env ex_worker_down)) = Some (Errorf ''connection refused'') \<and>
   fst (loopIteration ex_deps ex_env ex_worker_down) = True \<and>
   logged (snd (loopIteration ex_deps ex_env ex_worker_down)) =
     [(''fetch'', Errorf ''connection refused'')] \<and>
   fst (fetchJob ex_deps ex_env ex_worker_busy) =
     (Some \<lparr>Name = ''a'', Args = [], Fails = 0, LastErr = [], rawJSON = ''a'',
        dequeuedFrom = ''w:jobs:a'', inProgQueue = ''w:jobs:a:inprogress''\<rparr>, None) \<and>
   fst (loopIteration ex_deps ex_env ex_worker_busy) = True \<and>
   fst (fetchJob ex_deps ex_env ex_worker) = (None, None) \<and>
   fst (loopIteration ex_deps ex_env ex_worker) = False \<and>
   loop_step ex_deps (start ex_worker) EvDefault
     ((start ex_worker)\<lparr>wk := snd (loopIteration ex_deps ex_env (wk (start ex_worker)))\<rparr>) \<and>
   pc ((start ex_worker)\<lparr>wk := snd (loopIteration ex_deps ex_env (wk (start ex_worker)))\<rparr>)
     = AtSelect"
proof -
  have dn: "snd (fst (fetchJob ex_deps ex_env ex_worker_down)) = Some (Errorf ''connection refused'')"
    by (simp add: fetchJob_def ex_worker_down_def Let_def)
  have idle: "fst (fetchJob ex_deps ex_env ex_worker) = (None, None)"
    by (simp add: fetchJob_def Let_def ex_worker_def ex_env_def ex_redis_def
        redisLuaRpoplpushMultiCmd_def)
  have st: "loop_step ex_deps (start ex_worker) EvDefault
     ((start ex_worker)\<lparr>wk := snd (loopIteration ex_deps ex_env (wk (start ex_worker)))\<rparr>)"
    by (rule loop_step.case_default) (simp_all add: start_def)
  have lg: "logged ex_worker_down = []" by (simp add: ex_worker_down_def ex_worker_def)
  note t1 = loopIteration_outcomes [of ex_deps ex_env ex_worker_down]
  note t2 = loopIteration_outcomes [of ex_deps ex_env ex_worker_busy]
  note t3 = loopIteration_outcomes [of ex_deps ex_env ex_worker]
  have a: "fst (loopIteration ex_deps ex_env ex_worker_down) = True \<and>
    logged (snd (loopIteration ex_deps ex_env ex_worker_down)) =
     [(''fetch'', Errorf ''connection refused'')]"
    using t1 dn lg by simp
  have b: "fst (loopIteration ex_deps ex_env ex_worker_busy) = True"
    using t2 busy_fetch by simp
  have c: "fst (loopIteration ex_deps ex_env ex_worker) = False"
    using t3 idle by simp
  have d: "pc ((start ex_worker)\<lparr>wk := snd (loopIteration ex_deps ex_env (wk (start ex_worker)))\<rparr>)
     = AtSelect"
    by (simp add: start_def)
  show ?thesis using dn busy_fetch idle st a b c d by simp
qed

section \<open>Stopping\<close>

lemma loop_step_stopChan:
  "loop_step d s ev s' \<Longrightarrow> stopChan_closed s' = stopChan_closed s"
  by (induction rule: loop_step.induct) simp_all

lemma loop_steps_stopChan:
  "loop_steps d s s' \<Longrightarrow> stopChan_closed s' = stopChan_closed s"
  by (induction rule: loop_steps.induct) (simp_all add: loop_step_stopChan)

lemma loop_step_no_default:
  "loop_step d s ev s' \<Longrightarrow> stopChan_closed s \<Longrightarrow> ev \<noteq> EvDefault"
  by (induction rule: loop_step.induct) simp_all

lemma loop_step_at_select:
  "loop_step d s ev s' \<Longrightarrow> pc s = AtSelect \<Longrightarrow> stopChan_closed s \<Longrightarrow>
   ev = EvStop \<or> (ev = EvForceIter \<and> 0 < forceIterChan_senders s)"
  by (induction rule: loop_step.induct) simp_all

lemma loop_step_stop_only:
  "loop_step d s ev s' \<Longrightarrow> pc s = AtSelect \<Longrightarrow> stopChan_closed s \<Longrightarrow>
   \<not> doneStoppingChan_closed s \<Longrightarrow> forceIterChan_senders s = 0 \<Longrightarrow>
   ev = EvStop \<and> pc s' = Returned \<and> doneStoppingChan_closed s'"
  by (induction rule: loop_step.induct) (auto simp add: close_chan_def)

lemma can_stop:
  assumes "pc s = AtSelect" "stopChan_closed s"
  shows "\<exists>s'. loop_step d s EvStop s'"
proof (cases "doneStoppingChan_closed s")
  case True
  then have "close_chan (doneStoppingChan_closed s) = Inl (Panic ''close of closed channel'')"
    by (simp add: close_chan_def)
  with assms show ?thesis by (blast intro: loop_step.case_stop_panic)
next
  case False
  then have "close_chan (doneStoppingChan_closed s) = Inr True"
    by (simp add: close_chan_def)
  with assms show ?thesis by (blast intro: loop_step.case_stop)
qed

lemma can_forceIter:
  assumes "pc s = AtSelect" "0 < forceIterChan_senders s"
  shows "\<exists>s'. loop_step d s EvForceIter s'"
  using assms by (blast intro: loop_step.case_forceIter)

text \<open>
  C9, the claim as stated: with a stop and a force-step pending together, the loop serves
  the stop first. The \<open>select\<close> has both cases ready and may take either: here, with
  \<open>stopChan\<close> closed and one caller of \<open>forceIter\<close> waiting, the loop takes the
  force-step.
\<close>

theorem forceIter_served_before_stop:
  "pc ex_pending = AtSelect \<and> stopChan_closed ex_pending \<and>
   0 < forceIterChan_senders ex_pending \<and>
   loop_step ex_deps ex_pending EvForceIter
     (ex_pending\<lparr>wk := snd (loopIteration ex_deps ex_env (wk ex_pending)),
        forceIterChan_senders := forceIterChan_senders ex_pending - 1,
        doneForcingIterChan_receivers := doneForcingIterChan_receivers ex_pending + 1,
        pc := SendingDoneForcing\<rparr>)"
proof -
  have a: "pc ex_pending = AtSelect" and b: "stopChan_closed ex_pending"
    and c: "0 < forceIterChan_senders ex_pending"
    by (simp_all add: ex_pending_def forceIter_send_def start_def)
  from a c have "loop_step ex_deps ex_pending EvForceIter
     (ex_pending\<lparr>wk := snd (loopIteration ex_deps ex_env (wk ex_pending)),
        forceIterChan_senders := forceIterChan_senders ex_pending - 1,
        doneForcingIterChan_receivers := doneForcingIterChan_receivers ex_pending + 1,
        pc := SendingDoneForcing\<rparr>)"
    by (rule loop_step.case_forceIter)
  with a b c show ?thesis by simp
qed

text \<open>
  C9, amended: stop takes precedence over idle default work: once \<open>stopChan\<close> is closed
  it stays closed and the loop never starts an unforced iteration again; with no
  force-step pending the next pass through the \<open>select\<close> serves the stop and the loop
  returns. When a stop and a force-step are pending together, the \<open>select\<close> may serve
  either of them, and nothing else.
\<close>

theorem stop_precedence:
  "(\<forall>s1 ev s2. stopChan_closed s \<and> loop_steps d s s1 \<and> loop_step d s1 ev s2 \<longrightarrow>
      ev \<noteq> EvDefault \<and> stopChan_closed s2) \<and>
   (pc s = AtSelect \<and> stopChan_closed s \<and> \<not> doneStoppingChan_closed s \<and>
      forceIterChan_senders s = 0 \<longrightarrow>
      (\<exists>s'. loop_step d s EvStop s') \<and>
      (\<forall>ev s'. loop_step d s ev s' \<longrightarrow>
         ev = EvStop \<and> pc s' = Returned \<and> doneStoppingChan_closed s')) \<and>
   (pc s = AtSelect \<and> stopChan_closed s \<and> 0 < forceIterChan_senders s \<longrightarrow>
      (\<exists>s'. loop_step d s EvStop s') \<and> (\<exists>s'. loop_step d s EvForceIter s') \<and>
      (\<forall>ev s'. loop_step d s ev s' \<longrightarrow> ev = EvStop \<or> ev = EvForceIter))"
proof (intro conjI allI impI)
  fix s1 ev s2
  assume h: "stopChan_closed s \<and> loop_steps d s s1 \<and> loop_step d s1 ev s2"
  then have c1: "stopChan_closed s1" using loop_steps_stopChan [of d s s1] by simp
  with h show "ev \<noteq> EvDefault" by (blast dest: loop_step_no_default)
  from h c1 show "stopChan_closed s2" using loop_step_stopChan [of d s1 ev s2] by simp
next
  assume "pc s = AtSelect \<and> stopChan_closed s \<and> \<not> doneStoppingChan_closed s \<and>
      forceIterChan_senders s = 0"
  then show "\<exists>s'. loop_step d s EvStop s'" by (simp add: can_stop)
next
  fix ev s'
  assume "pc s = AtSelect \<and> stopChan_closed s \<and> \<not> doneStoppingChan_closed s \<and>
      forceIterChan_senders s = 0" and "loop_step d s ev s'"
  then have r: "ev = EvStop \<and> pc s' = Returned \<and> doneStoppingChan_closed s'"
    by (simp add: loop_step_stop_only)
  from r show "ev = EvStop" by simp
  from r show "pc s' = Returned" by simp
  from r show "doneStoppingChan_closed s'" by simp
next
  assume "pc s = AtSelect \<and> stopChan_closed s \<and> 0 < forceIterChan_senders s"
  then show "\<exists>s'. loop_step d s EvStop s'" by (simp add: can_stop)
next
  assume "pc s = AtSelect \<and> stopChan_closed s \<and> 0 < forceIterChan_senders s"
  then show "\<exists>s'. loop_step d s EvForceIter s'" by (simp add: can_forceIter)
next
  fix ev s'
  assume "pc s = AtSelect \<and> stopChan_closed s \<and> 0 < forceIterChan_senders s"
    and "loop_step d s ev s'"
  then show "ev = EvStop \<or> ev = EvForceIter" by (blast dest: loop_step_at_select)
qed

theorem stop_precedence_witness:
  "pc ex_pending = AtSelect \<and> stopChan_closed ex_pending \<and>
   0 < forceIterChan_senders ex_pending \<and>
   (\<exists>s'. loop_step ex_deps ex_pending EvStop s') \<and>
   (\<exists>s'. loop_step ex_deps ex_pending EvForceIter s') \<and>
   \<not> (\<exists>s'. loop_step ex_deps ex_pending EvDefault s')"
proof -
  have a: "pc ex_pending = AtSelect" and b: "stopChan_closed ex_pending"
    and c: "0 < forceIterChan_senders ex_pending"
    by (simp_all add: ex_pending_def forceIter_send_def start_def)
  note t = stop_precedence [of ex_pending ex_deps]
  have r: "loop_steps ex_deps ex_pending ex_pending" by (rule loop_steps.refl)
  have "\<not> (\<exists>s'. loop_step ex_deps ex_pending EvDefault s')"
    using t b r by blast
  moreover have "(\<exists>s'. loop_step ex_deps ex_pending EvStop s') \<and>
   (\<exists>s'. loop_step ex_deps ex_pending EvForceIter s')"
    using t a b c by blast
  ultimately show ?thesis using a b c by simp
qed

lemma stop_close_closed:
  "stopChan_closed s \<Longrightarrow> stop_close s = Inl (Panic ''close of closed channel'')"
  by (simp add: stop_close_def close_chan_def)

lemma stop_close_Inr:
  "stop_close s = Inr s1 \<Longrightarrow> stopChan_closed s1"
  by (auto simp add: stop_close_def close_chan_def split: if_splits)

lemma ex_first_stop:
  "stop ex_deps (start ex_worker)
     (Inr ((start ex_worker)\<lparr>stopChan_closed := True, doneStoppingChan_closed := True,
        pc := Returned\<rparr>))"
proof -
  let ?s1 = "(start ex_worker)\<lparr>stopChan_closed := True\<rparr>"
  have c: "stop_close (start ex_worker) = Inr ?s1"
    by (simp add: stop_close_def close_chan_def start_def)
  have "loop_step ex_deps ?s1 EvStop (?s1\<lparr>doneStoppingChan_closed := True, pc := Returned\<rparr>)"
    by (rule loop_step.case_stop) (simp_all add: start_def close_chan_def)
  then have st: "loop_steps ex_deps ?s1 (?s1\<lparr>doneStoppingChan_closed := True, pc := Returned\<rparr>)"
    by (rule loop_steps.step [OF loop_steps.refl])
  have "stop ex_deps (start ex_worker)
     (Inr (?s1\<lparr>doneStoppingChan_closed := True, pc := Returned\<rparr>))"
    using c st by (rule stop.stop_returns) simp
  then show ?thesis by simp
qed

text \<open>
  C10. \<open>stop\<close> is not idempotent: after a first call has returned, every further call
  panics in \<open>close(w.stopChan)\<close>, closing a closed channel; it never returns.
\<close>

theorem stop_twice_panics:
  assumes "stop d s (Inr s')"
  shows "stop d s' (Inl (Panic ''close of closed channel'')) \<and>
         (\<forall>r. stop d s' r \<longrightarrow> r = Inl (Panic ''close of closed channel''))"
proof -
  from assms obtain s1 where c: "stop_close s = Inr s1" and r: "loop_steps d s1 s'"
    by (cases rule: stop.cases) auto
  from c have "stopChan_closed s1" by (rule stop_close_Inr)
  with r have "stopChan_closed s'" using loop_steps_stopChan [of d s1 s'] by simp
  then have p: "stop_close s' = Inl (Panic ''close of closed channel'')"
    by (rule stop_close_closed)
  then have a: "stop d s' (Inl (Panic ''close of closed channel''))"
    by (rule stop.stop_panics)
  have b: "r = Inl (Panic ''close of closed channel'')" if "stop d s' r" for r
    using that p by (cases rule: stop.cases) auto
  from a b show ?thesis by blast
qed

theorem stop_twice_panics_witness:
  "stop ex_deps (start ex_worker)
     (Inr ((start ex_worker)\<lparr>stopChan_closed := True, doneStoppingChan_closed := True,
        pc := Returned\<rparr>)) \<and>
   stop ex_deps ((start ex_worker)\<lparr>stopChan_closed := True, doneStoppingChan_closed := True,
        pc := Returned\<rparr>) (Inl (Panic ''close of closed channel''))"
  using stop_twice_panics [OF ex_first_stop] ex_first_stop by simp

section \<open>The backoff\<close>

lemma sint64_add:
  "- (2 ^ 63) \<le> sint a + sint b \<Longrightarrow> sint a + sint b < 2 ^ 63 \<Longrightarrow>
   sint (a + b :: int64) = sint a + sint b"
  by (simp add: sint_word_ariths signed_take_bit_int_eq_self)

lemma sint64_mult:
  "- (2 ^ 63) \<le> sint a * sint b \<Longrightarrow> sint a * sint b < 2 ^ 63 \<Longrightarrow>
   sint (a * b :: int64) = sint a * sint b"
  by (simp add: sint_word_ariths signed_take_bit_int_eq_self)

lemma sint64_mult_nonneg:
  assumes "0 \<le> sint a" "0 \<le> sint b" "sint a * sint b \<le> M" "M < 2 ^ 63"
  shows "sint (a * b :: int64) = sint a * sint b"
proof (rule sint64_mult)
  have "0 \<le> sint a * sint b" using assms(1,2) by (rule mult_nonneg_nonneg)
  moreover have "- (2 ^ 63) \<le> (0::int)" by simp
  ultimately show "- (2 ^ 63) \<le> sint a * sint b" by (rule order_trans [rotated])
  show "sint a * sint b < 2 ^ 63" using assms(3,4) by (rule le_less_trans)
qed

lemma sint64_add_nonneg:
  assumes "0 \<le> sint a" "0 \<le> sint b" "sint a + sint b \<le> M" "M < 2 ^ 63"
  shows "sint (a + b :: int64) = sint a + sint b"
proof (rule sint64_add)
  have "0 \<le> sint a + sint b" using assms(1,2) by (rule add_nonneg_nonneg)
  moreover have "- (2 ^ 63) \<le> (0::int)" by simp
  ultimately show "- (2 ^ 63) \<le> sint a + sint b" by (rule order_trans [rotated])
  show "sint a + sint b < 2 ^ 63" using assms(3,4) by (rule le_less_trans)
qed

text \<open>
  Up to 55108 failures no product or sum of \<open>backoff\<close> leaves the range of \<open>int64\<close>:
  \<open>55108 ^ 4 + 15 + 29 * 55109 < 2 ^ 63 \<le> 55109 ^ 4\<close>.
\<close>

lemma backoff_sint:
  assumes f: "0 \<le> sint fails" "sint fails \<le> 55108" and r: "0 \<le> sint r" "sint r < 30"
  shows "sint (backoff r fails) = (sint fails) ^ 4 + 15 + sint r * (sint fails + 1)"
proof -
  let ?f = "sint fails" and ?r = "sint r"
  define B :: int where "B = 55108"
  have fB: "?f \<le> B" using f by (simp add: B_def)
  have B0: "0 \<le> B" by (simp add: B_def)
  have f1: "sint (fails + 1) = ?f + 1"
    using f by (simp add: sint64_add)
  have m: "?r * (?f + 1) \<le> 29 * (B + 1)" using f r fB by (intro mult_mono) auto
  have rm: "sint (r * (fails + 1)) = ?r * (?f + 1)"
    unfolding f1 [symmetric]
    by (rule sint64_mult_nonneg [where M = "29 * (B + 1)"])
       (use f r m in \<open>simp_all add: f1 B_def\<close>)
  have f2le: "?f * ?f \<le> B * B" using f fB by (intro mult_mono) auto
  have f2: "sint (fails * fails) = ?f * ?f"
    by (rule sint64_mult_nonneg [OF f(1) f(1) f2le]) (simp add: B_def)
  have f2ge: "0 \<le> sint (fails * fails)" unfolding f2 using f by simp
  have f3le: "?f * ?f * ?f \<le> B * B * B" using f fB f2le B0 by (intro mult_mono) auto
  have f3: "sint (fails * fails * fails) = ?f * ?f * ?f"
    using sint64_mult_nonneg [OF f2ge f(1), where M = "B * B * B"] f3le
    by (simp add: f2 B_def)
  have f3ge: "0 \<le> sint (fails * fails * fails)" unfolding f3 using f by simp
  have f4le: "?f * ?f * ?f * ?f \<le> B * B * B * B"
    using f fB f3le B0 by (intro mult_mono) auto
  have f4: "sint (fails * fails * fails * fails) = ?f * ?f * ?f * ?f"
    using sint64_mult_nonneg [OF f3ge f(1), where M = "B * B * B * B"] f4le
    by (simp add: f3 B_def)
  have f4ge: "0 \<le> sint (fails * fails * fails * fails)" unfolding f4 using f by simp
  have f415: "sint (fails * fails * fails * fails + 15) = ?f * ?f * ?f * ?f + 15"
    using sint64_add_nonneg [OF f4ge, of 15 "B * B * B * B + 15"] f4le
    by (simp add: f4 B_def)
  have f415ge: "0 \<le> sint (fails * fails * fails * fails + 15)"
    using f4ge unfolding f415 f4 by linarith
  have rmge: "0 \<le> sint (r * (fails + 1))" unfolding rm using f r by simp
  have "sint (backoff r fails) = ?f * ?f * ?f * ?f + 15 + ?r * (?f + 1)"
    unfolding backoff_def
    using sint64_add_nonneg [OF f415ge rmge, of "B * B * B * B + 15 + 29 * (B + 1)"] f4le m
    by (simp add: f415 rm B_def)
  then show ?thesis by (simp add: power4_eq_xxxx)
qed

lemma one_to_five:
  "1 \<le> sint (f::int64) \<Longrightarrow> sint f \<le> 5 \<Longrightarrow>
   sint f = 1 \<or> sint f = 2 \<or> sint f = 3 \<or> sint f = 4 \<or> sint f = 5"
  by arith

text \<open>
  C4, the claim as stated: for every nonnegative \<open>fails\<close> the result is
  \<open>fails ^ 4 + 15 + r * (fails + 1)\<close> with \<open>0 \<le> r < 30\<close>. At \<open>fails = 65536\<close> the
  fourth power is \<open>2 ^ 64\<close>, which wraps to 0 in \<open>int64\<close>: with \<open>r = 0\<close> the result is
  15, below \<open>fails ^ 4 + 15\<close>, so no \<open>r \<ge> 0\<close> gives it.
\<close>

theorem backoff_wraps_at_65536:
  "0 \<le> sint (65536 :: int64) \<and> sint (backoff 0 65536) = 15 \<and>
   sint (backoff 0 65536) < sint (65536 :: int64) ^ 4 + 15"
  by (simp add: backoff_def)

text \<open>
  C4, amended: for every \<open>fails\<close> from 0 to 55108 and every value \<open>r\<close> of
  \<open>rand.Int63n(30)\<close>, that is \<open>0 \<le> r < 30\<close>, \<open>backoff\<close> returns
  \<open>fails ^ 4 + 15 + r * (fails + 1)\<close> seconds. (How \<open>r\<close> is distributed is a property of
  the random number generator.)
\<close>

theorem backoff_value:
  assumes "0 \<le> sint fails" and "sint fails \<le> 55108" and "0 \<le> sint r" and "sint r < 30"
  shows "sint (backoff r fails) = (sint fails) ^ 4 + 15 + sint r * (sint fails + 1)"
  using assms by (rule backoff_sint)

theorem backoff_value_witness:
  "0 \<le> sint (3 :: int64) \<and> sint (3 :: int64) \<le> 55108 \<and>
   0 \<le> sint (7 :: int64) \<and> sint (7 :: int64) < 30 \<and>
   sint (backoff 7 3) = 3 ^ 4 + 15 + 7 * (3 + 1) \<and> sint (backoff 7 3) = 124"
  using backoff_value [of 3 7] by simp

text \<open>
  C5, the claim as stated: for \<open>fails\<close> in 1..5 and all outcomes of the jitter,
  \<open>backoff (fails + 1) > backoff fails\<close>. Each call draws its own jitter: with 29 drawn
  at \<open>fails = 1\<close> and 0 drawn at \<open>fails = 2\<close> the delays are 74 and 31.
\<close>

theorem backoff_not_increasing:
  "sint (backoff 29 1) = 74 \<and> sint (backoff 0 (1 + 1)) = 31 \<and>
   \<not> sint (backoff 29 1) < sint (backoff 0 (1 + 1))"
  by (simp add: backoff_def)

text \<open>
  C5, amended: for every \<open>fails\<close> in 1..5 and all outcomes of the jitter, \<open>backoff fails\<close>
  is at least 15; and \<open>backoff (fails + 1) > backoff fails\<close> whenever the jitter drawn
  for \<open>fails + 1\<close> is not smaller than the one drawn for \<open>fails\<close>, or \<open>fails\<close> is at
  least 3.
\<close>

theorem backoff_growth:
  assumes f: "1 \<le> sint fails" "sint fails \<le> 5"
    and r: "0 \<le> sint r" "sint r < 30" and r': "0 \<le> sint r'" "sint r' < 30"
  shows "15 \<le> sint (backoff r fails) \<and>
         (sint r \<le> sint r' \<or> 3 \<le> sint fails \<longrightarrow>
            sint (backoff r fails) < sint (backoff r' (fails + 1)))"
proof -
  have f1: "sint (fails + 1) = sint fails + 1" using f by (simp add: sint64_add)
  have a: "sint (backoff r fails) = (sint fails) ^ 4 + 15 + sint r * (sint fails + 1)"
    using f r by (simp add: backoff_sint)
  have b: "sint (backoff r' (fails + 1)) = (sint fails + 1) ^ 4 + 15 + sint r' * (sint fails + 2)"
    using f r' by (simp add: backoff_sint f1)
  from one_to_five [OF f] show ?thesis
    unfolding a b using r r' by (elim disjE) auto
qed

theorem backoff_growth_witness:
  "1 \<le> sint (2 :: int64) \<and> sint (2 :: int64) \<le> 5 \<and>
   0 \<le> sint (7 :: int64) \<and> sint (7 :: int64) < 30 \<and>
   0 \<le> sint (9 :: int64) \<and> sint (9 :: int64) < 30 \<and> sint (7 :: int64) \<le> sint (9 :: int64) \<and>
   15 \<le> sint (backoff 7 2) \<and> sint (backoff 7 2) < sint (backoff 9 (2 + 1))"
  using backoff_growth [of 2 7 9] by simp

end
